theory Spec2Isabelle
  imports Complex_Main
begin

section \<open>JavaScript values and errors\<close>

text \<open>
  The client is TypeScript running in a browser.  Values that cross the network are
  JSON values.  The numbers of the model are the safe integers, those of magnitude
  below \<open>2 ^ 53\<close> (message ids, status-like fields): each is an exact double and
  prints as its plain decimal text.  Strings are lists of code units in the Latin-1
  range.  An object is the list of its properties, in order, with distinct keys.
  \<open>undefined\<close> is the \<open>None\<close> of an option type.
\<close>

typedef safe_integer = "{i :: int. - (2 ^ 53) < i \<and> i < 2 ^ 53}"
  morphisms integer_value safe_integer_of
  by (rule exI [of _ 0]) simp

datatype json =
    JNull
  | JBool bool
  | JNum safe_integer
  | JStr string
  | JArr "json list"
  | JObj "(string \<times> json) list"

text \<open>
  What a \<open>throw\<close> or a rejected promise carries.  The first three are instances of
  the built-in \<open>Error\<close> class (\<open>TypeError\<close> and \<open>SyntaxError\<close> are subclasses);
  \<open>Thrown\<close> is any other value, which has no message to read.
\<close>

datatype js_error =
    Error string
  | TypeError string
  | SyntaxError string
  | Thrown json

fun instanceof_Error :: "js_error \<Rightarrow> bool" where
  "instanceof_Error (Thrown v) = False"
| "instanceof_Error e = True"

fun err_message :: "js_error \<Rightarrow> string" where
  "err_message (Error m) = m"
| "err_message (TypeError m) = m"
| "err_message (SyntaxError m) = m"
| "err_message (Thrown v) = []"

text \<open>JavaScript truthiness of a possibly undefined value (\<open>x ? a : b\<close>, \<open>x || y\<close>, \<open>!x\<close>).\<close>

fun truthy :: "json option \<Rightarrow> bool" where
  "truthy None = False"
| "truthy (Some JNull) = False"
| "truthy (Some (JBool b)) = b"
| "truthy (Some (JNum n)) = (integer_value n \<noteq> 0)"
| "truthy (Some (JStr s)) = (s \<noteq> [])"
| "truthy (Some (JArr xs)) = True"
| "truthy (Some (JObj kvs)) = True"

text \<open>\<open>x || y\<close> where \<open>y\<close> is defined.\<close>

definition or_else :: "json option \<Rightarrow> json \<Rightarrow> json" where
  "or_else x y = (case x of None \<Rightarrow> y | Some v \<Rightarrow> if truthy x then v else y)"

text \<open>
  Property access \<open>v.key\<close> on a parsed JSON value, for keys that no prototype
  defines (\<open>detail\<close> is the only one read): it throws on \<open>null\<close>, reads an own
  property of an object, and is \<open>undefined\<close> on everything else.  The text of the
  \<open>TypeError\<close> is the engine's.
\<close>

fun get_property :: "json \<Rightarrow> string \<Rightarrow> js_error + json option" where
  "get_property JNull key =
     Inl (TypeError (''Cannot read properties of null (reading '' @ [CHR 0x27] @ key @
                     [CHR 0x27] @ '')''))"
| "get_property (JObj kvs) key = Inr (map_of kvs key)"
| "get_property v key = Inr None"

text \<open>
  The decimal text of an integer, and \<open>Number.prototype.toString\<close> on the numbers of
  the model.
\<close>

fun dec_nat :: "nat \<Rightarrow> string" where
  "dec_nat n =
     (if n < 10 then [''0123456789'' ! n]
      else dec_nat (n div 10) @ [''0123456789'' ! (n mod 10)])"

definition decimal :: "int \<Rightarrow> string" where
  "decimal i = (if i < 0 then CHR ''-'' # dec_nat (nat (- i)) else dec_nat (nat i))"

definition Number_toString :: "safe_integer \<Rightarrow> string" where
  "Number_toString n = decimal (integer_value n)"

fun join :: "string \<Rightarrow> string list \<Rightarrow> string" where
  "join sep [] = []"
| "join sep [x] = x"
| "join sep (x # y # ys) = x @ sep @ join sep (y # ys)"

text \<open>
  The abstract operation \<open>ToString\<close>, which \<open>new Error(v)\<close> applies to its
  argument: an array is joined with commas (null elements give the empty string), a
  plain object is \<open>[object Object]\<close>.
\<close>

fun ToString :: "json \<Rightarrow> string" where
  "ToString JNull = ''null''"
| "ToString (JBool b) = (if b then ''true'' else ''false'')"
| "ToString (JNum n) = Number_toString n"
| "ToString (JStr s) = s"
| "ToString (JArr xs) = join '','' (map (\<lambda>x. if x = JNull then [] else ToString x) xs)"
| "ToString (JObj kvs) = ''[object Object]''"

definition new_Error :: "json \<Rightarrow> js_error" where
  "new_Error v = Error (ToString v)"

text \<open>\<open>JSON.stringify\<close>: strings are quoted with the escapes of the language standard.\<close>

definition QuoteJSONChar :: "char \<Rightarrow> string" where
  "QuoteJSONChar c =
     (if c = CHR 0x22 then [CHR 0x5C, CHR 0x22]
      else if c = CHR 0x5C then [CHR 0x5C, CHR 0x5C]
      else if c = CHR 0x08 then [CHR 0x5C, CHR ''b'']
      else if c = CHR 0x09 then [CHR 0x5C, CHR ''t'']
      else if c = CHR 0x0A then [CHR 0x5C, CHR ''n'']
      else if c = CHR 0x0C then [CHR 0x5C, CHR ''f'']
      else if c = CHR 0x0D then [CHR 0x5C, CHR ''r'']
      else if (of_char c :: nat) < 32
        then [CHR 0x5C, CHR ''u'', CHR ''0'', CHR ''0'',
              ''0123456789abcdef'' ! (of_char c div 16),
              ''0123456789abcdef'' ! (of_char c mod 16)]
      else [c])"

definition QuoteJSONString :: "string \<Rightarrow> string" where
  "QuoteJSONString s = CHR 0x22 # concat (map QuoteJSONChar s) @ [CHR 0x22]"

fun JSON_stringify :: "json \<Rightarrow> string" where
  "JSON_stringify JNull = ''null''"
| "JSON_stringify (JBool b) = (if b then ''true'' else ''false'')"
| "JSON_stringify (JNum n) = Number_toString n"
| "JSON_stringify (JStr s) = QuoteJSONString s"
| "JSON_stringify (JArr xs) = ''['' @ join '','' (map JSON_stringify xs) @ '']''"
| "JSON_stringify (JObj kvs) =
     ''{'' @ join '','' (map (\<lambda>kv. QuoteJSONString (fst kv) @ '':'' @ JSON_stringify (snd kv)) kvs)
       @ ''}''"

text \<open>
  \<open>String.prototype.trim\<close>: white space and line terminators are removed at both
  ends (tab, line feed, vertical tab, form feed, carriage return, space, no-break
  space; the white space beyond Latin-1 is outside the model of strings).
\<close>

definition is_white_space :: "char \<Rightarrow> bool" where
  "is_white_space c = ((of_char c :: nat) \<in> {9, 10, 11, 12, 13, 32, 160})"

definition trim :: "string \<Rightarrow> string" where
  "trim s = rev (dropWhile is_white_space (rev (dropWhile is_white_space s)))"

section \<open>The Credential Store (identity provider SDK)\<close>

text \<open>
  The identity provider's client library is an external collaborator.  A cached
  session carries its three tokens and the verdict of the provider's own validity
  check \<open>session.isValid()\<close>.
\<close>

record CognitoUserSession =
  sessionIdToken :: string
  sessionAccessToken :: string
  sessionRefreshToken :: string
  isValid :: bool

text \<open>
  A cached user.  \<open>getSession\<close> holds the two arguments \<open>(err, session)\<close> that the
  provider passes to the callback of \<open>cognitoUser.getSession\<close>; each may be null.
\<close>

record CognitoUser =
  username :: string
  getSession :: "js_error option \<times> CognitoUserSession option"

record Response =
  status :: nat
  json_result :: "js_error + json"

record fetch_call =
  url :: string
  init_method :: string
  init_headers :: "(string \<times> string) list"
  init_body :: "string option"

text \<open>
  Everything outside the client code: the provider's local cache
  (\<open>userPool.getCurrentUser()\<close>), the environment variable with the API base URL,
  the network (what \<open>fetch\<close> settles with, given every call issued so far, the
  current one last), and the list of calls issued so far.
\<close>

record world =
  currentUser :: "CognitoUser option"
  NEXT_PUBLIC_API_URL :: "string option"
  server :: "fetch_call list \<Rightarrow> js_error + Response"
  net_log :: "fetch_call list"

definition CognitoUser_signOut :: "world \<Rightarrow> world" where
  \<comment> \<open>Modelled from the spec: \<open>cognitoUser.signOut()\<close> of the provider SDK, which is not
      part of the repository: it clears the provider's local session cache.\<close>
  "CognitoUser_signOut w = w\<lparr>currentUser := None\<rparr>"

section \<open>Session Manager (lib/auth)\<close>

record AuthTokens =
  idToken :: string
  accessToken :: string
  refreshToken :: string

definition signOut :: "world \<Rightarrow> (js_error + unit) \<times> world" where
  "signOut w =
     (case currentUser w of
        Some cognitoUser \<Rightarrow> (Inr (), CognitoUser_signOut w)
      | None \<Rightarrow> (Inr (), w))"

definition getCurrentSession :: "world \<Rightarrow> AuthTokens option" where
  "getCurrentSession w =
     (case currentUser w of
        None \<Rightarrow> None
      | Some cognitoUser \<Rightarrow>
          (case getSession cognitoUser of
             (Some err, session) \<Rightarrow> None
           | (None, None) \<Rightarrow> None
           | (None, Some session) \<Rightarrow>
               if \<not> isValid session then None
               else Some \<lparr>idToken = sessionIdToken session,
                          accessToken = sessionAccessToken session,
                          refreshToken = sessionRefreshToken session\<rparr>))"

definition getIdToken :: "world \<Rightarrow> string option" where
  "getIdToken w =
     (case getCurrentSession w of
        None \<Rightarrow> None
      | Some session \<Rightarrow> if idToken session \<noteq> [] then Some (idToken session) else None)"

section \<open>API Client (lib/api)\<close>

text \<open>
  The payload types the module declares.  A field whose name clashes with a constant
  or a keyword of the logic, or with a parameter, carries the suffix \<open>_field\<close> (the
  \<open>id\<close> of a \<open>UserInfo\<close> is \<open>user_id\<close>).  The list of a \<open>MessagesResponse\<close> is
  optional because the page guards it (\<open>data.messages || []\<close>).
\<close>

record Message =
  id_field :: int
  message_field :: string
  created_at :: string

record MessagesResponse =
  messages_field :: "Message list option"

record UserInfo =
  user_id :: int
  email :: string
  cognito_sub :: string

definition API_BASE_URL :: "world \<Rightarrow> string" where
  "API_BASE_URL w =
     (case NEXT_PUBLIC_API_URL w of
        None \<Rightarrow> ''http://localhost:8000''
      | Some u \<Rightarrow> if u \<noteq> [] then u else ''http://localhost:8000'')"

record RequestOptions =
  method_field :: "string option"
  body :: "json option"
  requireAuth :: "bool option"

text \<open>
  The platform's \<open>fetch\<close>: the call is issued (it joins the list of calls) and the
  promise settles with what the network delivers.  \<open>response.ok\<close> is a status from
  200 to 299.
\<close>

definition fetch :: "fetch_call \<Rightarrow> world \<Rightarrow> (js_error + Response) \<times> world" where
  "fetch call w = (let calls = net_log w @ [call] in (server w calls, w\<lparr>net_log := calls\<rparr>))"

definition ok :: "Response \<Rightarrow> bool" where
  "ok response = (200 \<le> status response \<and> status response \<le> 299)"

text \<open>
  An asynchronous function is a function from the world to its outcome (\<open>Inl\<close> a
  rejection, \<open>Inr\<close> the value) and the world it leaves.
\<close>

definition request :: "string \<Rightarrow> RequestOptions \<Rightarrow> world \<Rightarrow> (js_error + json) \<times> world" where
  "request endpoint options w =
     (let method = (case method_field options of None \<Rightarrow> ''GET'' | Some m \<Rightarrow> m);
          body = body options;
          requireAuth = (case requireAuth options of None \<Rightarrow> True | Some b \<Rightarrow> b);
          headers = [(''Content-Type'', ''application/json'')]
      in case (if requireAuth
               then (case getIdToken w of
                       None \<Rightarrow> Inl (Error ''Not authenticated'')
                     | Some token \<Rightarrow> Inr (headers @ [(''Authorization'', ''Bearer '' @ token)]))
               else Inr headers) of
           Inl e \<Rightarrow> (Inl e, w)
         | Inr headers \<Rightarrow>
             (case fetch \<lparr>url = API_BASE_URL w @ endpoint,
                          init_method = method,
                          init_headers = headers,
                          init_body = (case body of
                                         None \<Rightarrow> None
                                       | Some b \<Rightarrow> if truthy body then Some (JSON_stringify b)
                                                   else None)\<rparr> w of
                (Inl e, w') \<Rightarrow> (Inl e, w')
              | (Inr response, w') \<Rightarrow>
                  if \<not> ok response then
                    (let error = (case json_result response of
                                    Inl e \<Rightarrow> JObj [(''detail'', JStr ''Request failed'')]
                                  | Inr v \<Rightarrow> v)
                     in case get_property error ''detail'' of
                          Inl e \<Rightarrow> (Inl e, w')
                        | Inr detail \<Rightarrow>
                            (Inl (new_Error (or_else detail (JStr ''Request failed''))), w'))
                  else (json_result response, w')))"

definition getMe :: "world \<Rightarrow> (js_error + json) \<times> world" where
  "getMe w = request ''/auth/me'' \<lparr>method_field = None, body = None, requireAuth = None\<rparr> w"

definition getMessages :: "world \<Rightarrow> (js_error + json) \<times> world" where
  "getMessages w = request ''/messages'' \<lparr>method_field = None, body = None, requireAuth = None\<rparr> w"

definition createMessage :: "string \<Rightarrow> world \<Rightarrow> (js_error + json) \<times> world" where
  "createMessage message w =
     request ''/messages''
       \<lparr>method_field = Some ''POST'', body = Some (JObj [(''message'', JStr message)]),
        requireAuth = None\<rparr> w"

definition healthCheck :: "world \<Rightarrow> (js_error + json) \<times> world" where
  "healthCheck w = request ''/'' \<lparr>method_field = None, body = None, requireAuth = Some False\<rparr> w"

definition deleteMessage :: "int \<Rightarrow> world \<Rightarrow> (js_error + json) \<times> world" where
  \<comment> \<open>Modelled from the spec: \<open>deleteMessage\<close>, which the home page imports from lib/api
      and which the lib/api source at hand does not define.  Spec, external interfaces:
      \<open>DELETE /messages/{id}\<close> with the id in decimal, authenticated, no request body; a
      thin instantiation of the request contract like its siblings.\<close>
  "deleteMessage mid w =
     request (''/messages/'' @ decimal mid)
       \<lparr>method_field = Some ''DELETE'', body = None, requireAuth = None\<rparr> w"

text \<open>The domain operations the module exposes, and what calling each one runs.\<close>

datatype api_operation =
    GetMe
  | GetMessages
  | CreateMessage string
  | DeleteMessage int
  | HealthCheck

fun api_call :: "api_operation \<Rightarrow> world \<Rightarrow> (js_error + json) \<times> world" where
  "api_call GetMe = getMe"
| "api_call GetMessages = getMessages"
| "api_call (CreateMessage message) = createMessage message"
| "api_call (DeleteMessage mid) = deleteMessage mid"
| "api_call HealthCheck = healthCheck"

section \<open>Home page (app/page)\<close>

text \<open>
  The component's state: one field for each \<open>useState\<close> hook and for the \<open>startX\<close>
  ref, with the declared types.  Pixel coordinates and offsets are doubles, read as
  real numbers.  \<open>swipeOffset\<close> is the object that maps a message id to its offset.
\<close>

record Home =
  text_field :: string
  messages :: "Message list"
  user :: "UserInfo option"
  loading :: bool
  loadingMessages :: bool
  error :: "string option"
  isAuthenticated :: "bool option"
  swipeOffset :: "int \<rightharpoonup> real"
  swiping :: "int option"
  startX :: real

text \<open>\<open>err instanceof Error ? err.message : fallback\<close>\<close>

definition catch_message :: "js_error \<Rightarrow> string \<Rightarrow> string" where
  "catch_message err fallback = (if instanceof_Error err then err_message err else fallback)"

text \<open>
  A handler takes the state and the world and returns both as they are once the
  handler, with everything it awaits, has run.  The functions imported from lib/api
  are parameters: the page sees them through their declared types (\<open>request<T>\<close>
  hands the parsed body over as a \<open>T\<close>), and the world they act on is arbitrary.
\<close>

definition fetchMessages ::
  "('w \<Rightarrow> (js_error + MessagesResponse) \<times> 'w) \<Rightarrow> Home \<Rightarrow> 'w \<Rightarrow> Home \<times> 'w" where
  "fetchMessages getMessages_api st w =
     (let st = st\<lparr>loadingMessages := True, error := None\<rparr>
      in case getMessages_api w of
           (Inr data, w') \<Rightarrow>
             (st\<lparr>messages := (case messages_field data of None \<Rightarrow> [] | Some ms \<Rightarrow> ms),
                 loadingMessages := False\<rparr>, w')
         | (Inl err, w') \<Rightarrow>
             (st\<lparr>error := Some (catch_message err ''Failed to fetch messages''),
                 loadingMessages := False\<rparr>, w'))"

definition handleSubmit ::
  "(string \<Rightarrow> 'w \<Rightarrow> (js_error + 'a) \<times> 'w) \<Rightarrow> ('w \<Rightarrow> (js_error + MessagesResponse) \<times> 'w) \<Rightarrow>
   Home \<Rightarrow> 'w \<Rightarrow> Home \<times> 'w" where
  "handleSubmit createMessage_api getMessages_api st w =
     (if trim (text_field st) = [] then (st, w)
      else
        (let st1 = st\<lparr>loading := True, error := None\<rparr>
         in case createMessage_api (text_field st) w of
              (Inr created, w1) \<Rightarrow>
                (case fetchMessages getMessages_api (st1\<lparr>text_field := []\<rparr>) w1 of
                   (st2, w2) \<Rightarrow> (st2\<lparr>loading := False\<rparr>, w2))
            | (Inl err, w1) \<Rightarrow>
                (st1\<lparr>error := Some (catch_message err ''Failed to send message''),
                     loading := False\<rparr>, w1)))"

definition handleDelete ::
  "(int \<Rightarrow> 'w \<Rightarrow> (js_error + 'a) \<times> 'w) \<Rightarrow> int \<Rightarrow> Home \<Rightarrow> 'w \<Rightarrow> Home \<times> 'w" where
  "handleDelete deleteMessage_api mid st w =
     (case deleteMessage_api mid w of
        (Inr done, w') \<Rightarrow>
          (st\<lparr>messages := filter (\<lambda>msg. id_field msg \<noteq> mid) (messages st)\<rparr>, w')
      | (Inl err, w') \<Rightarrow>
          (st\<lparr>error := Some (catch_message err ''Failed to delete message'')\<rparr>, w'))"

definition handleSwipeStart :: "int \<Rightarrow> real \<Rightarrow> Home \<Rightarrow> Home" where
  "handleSwipeStart mid clientX st = st\<lparr>startX := clientX, swiping := Some mid\<rparr>"

text \<open>
  The coordinates are doubles, read as the real numbers they are.  A subtraction of
  doubles yields the double nearest to the exact difference: \<open>to_double\<close> is that
  rounding, a parameter of the model.
\<close>

definition handleSwipeMove :: "(real \<Rightarrow> real) \<Rightarrow> int \<Rightarrow> real \<Rightarrow> Home \<Rightarrow> Home" where
  "handleSwipeMove to_double mid clientX st =
     (if swiping st \<noteq> Some mid then st
      else (let diff = to_double (clientX - startX st)
            in st\<lparr>swipeOffset := (swipeOffset st)(mid \<mapsto> min 0 diff)\<rparr>))"

text \<open>
  \<open>handleSwipeEnd\<close> starts \<open>handleDelete\<close> without awaiting it and then resets the
  offset and the swiping id.  The two touch different parts of the state (the list
  and the error on one side, the offset and the swiping id on the other), so the
  state after both is the same in either order; the model runs the delete first.
\<close>

definition handleSwipeEnd ::
  "(int \<Rightarrow> 'w \<Rightarrow> (js_error + 'a) \<times> 'w) \<Rightarrow> int \<Rightarrow> Home \<Rightarrow> 'w \<Rightarrow> Home \<times> 'w" where
  "handleSwipeEnd deleteMessage_api mid st w =
     (let offset = (case swipeOffset st mid of None \<Rightarrow> 0 | Some v \<Rightarrow> v)
      in case (if offset < - 100 then handleDelete deleteMessage_api mid st w else (st, w)) of
           (st', w') \<Rightarrow> (st'\<lparr>swipeOffset := (swipeOffset st')(mid \<mapsto> 0), swiping := None\<rparr>, w'))"

section \<open>Sample inputs\<close>

definition alice_session :: CognitoUserSession where
  "alice_session =
     \<lparr>sessionIdToken = ''id.jwt'', sessionAccessToken = ''access.jwt'',
      sessionRefreshToken = ''refresh'', isValid = True\<rparr>"

definition alice :: CognitoUser where
  "alice = \<lparr>username = ''alice@example.com'', getSession = (None, Some alice_session)\<rparr>"

definition unreachable_server :: "fetch_call list \<Rightarrow> js_error + Response" where
  "unreachable_server calls = Inl (TypeError ''Failed to fetch'')"

definition signed_out_world :: world where
  "signed_out_world =
     \<lparr>currentUser = None, NEXT_PUBLIC_API_URL = None,
      server = unreachable_server, net_log = []\<rparr>"

definition signed_in_world :: world where
  "signed_in_world = signed_out_world\<lparr>currentUser := Some alice\<rparr>"

text \<open>A server that answers every call with 204 and no body, and one that answers 404.\<close>

definition no_content_server :: "fetch_call list \<Rightarrow> js_error + Response" where
  "no_content_server calls =
     Inr \<lparr>status = 204, json_result = Inl (SyntaxError ''Unexpected end of JSON input'')\<rparr>"

definition not_found_server :: "fetch_call list \<Rightarrow> js_error + Response" where
  "not_found_server calls =
     Inr \<lparr>status = 404, json_result = Inr (JObj [(''detail'', JStr ''Message not found'')])\<rparr>"

text \<open>A server whose error body is \<open>null\<close>, and one whose \<open>detail\<close> is an empty array.\<close>

definition null_body_server :: "fetch_call list \<Rightarrow> js_error + Response" where
  "null_body_server calls = Inr \<lparr>status = 500, json_result = Inr JNull\<rparr>"

definition empty_detail_server :: "fetch_call list \<Rightarrow> js_error + Response" where
  "empty_detail_server calls =
     Inr \<lparr>status = 422, json_result = Inr (JObj [(''detail'', JArr [])])\<rparr>"

text \<open>
  A home page showing two notes, and API functions for running the handlers: the
  world they act on is the list of calls made so far.
\<close>

definition note1 :: Message where
  "note1 = \<lparr>id_field = 1, message_field = ''squats'', created_at = ''2026-01-01T10:00:00''\<rparr>"

definition note2 :: Message where
  "note2 = \<lparr>id_field = 2, message_field = ''bench press'', created_at = ''2026-01-02T10:00:00''\<rparr>"

definition note3 :: Message where
  "note3 = \<lparr>id_field = 3, message_field = ''rows'', created_at = ''2026-01-03T10:00:00''\<rparr>"

definition home_page :: Home where
  "home_page =
     \<lparr>text_field = ''rows'', messages = [note2, note1], user = None, loading = False,
      loadingMessages = False, error = None, isAuthenticated = Some True,
      swipeOffset = Map.empty, swiping = None, startX = 0\<rparr>"

definition accepting_createMessage ::
  "string \<Rightarrow> string list \<Rightarrow> (js_error + Message) \<times> string list" where
  "accepting_createMessage message trace =
     (Inr \<lparr>id_field = 3, message_field = message, created_at = ''2026-01-03T10:00:00''\<rparr>,
      trace @ [''POST /messages''])"

definition listing_getMessages ::
  "string list \<Rightarrow> (js_error + MessagesResponse) \<times> string list" where
  "listing_getMessages trace =
     (Inr \<lparr>messages_field = Some [note3, note2, note1]\<rparr>, trace @ [''GET /messages''])"

definition accepting_deleteMessage ::
  "int \<Rightarrow> string list \<Rightarrow> (js_error + unit) \<times> string list" where
  "accepting_deleteMessage mid trace =
     (Inr (), trace @ [''DELETE /messages/'' @ decimal mid])"

definition rejecting_deleteMessage ::
  "int \<Rightarrow> string list \<Rightarrow> (js_error + unit) \<times> string list" where
  "rejecting_deleteMessage mid trace =
     (Inl (Error ''Message not found''), trace @ [''DELETE /messages/'' @ decimal mid])"

section \<open>Properties of the Session Manager\<close>

text \<open>
  C4.  Whatever the provider's cache holds, \<open>getCurrentSession\<close> returns either
  nothing, or the three tokens of a session that the provider delivered without an
  error and whose \<open>isValid()\<close> check holds.  With no cached user, with an error from
  \<open>getSession\<close>, with a null session or with an invalid session the result is
  absent.
\<close>

theorem getCurrentSession_absent_or_valid:
  "(getCurrentSession w = None \<or>
    (\<exists>u s. currentUser w = Some u \<and> getSession u = (None, Some s) \<and> isValid s \<and>
       getCurrentSession w =
         Some \<lparr>idToken = sessionIdToken s, accessToken = sessionAccessToken s,
               refreshToken = sessionRefreshToken s\<rparr>)) \<and>
   (currentUser w = None \<longrightarrow> getCurrentSession w = None) \<and>
   (\<forall>u. currentUser w = Some u \<longrightarrow>
      (fst (getSession u) \<noteq> None \<or> snd (getSession u) = None \<or>
       (\<exists>s. snd (getSession u) = Some s \<and> \<not> isValid s)) \<longrightarrow>
      getCurrentSession w = None)"
  by (auto simp: getCurrentSession_def split: option.splits prod.splits)

theorem getCurrentSession_absent_or_valid_witness:
  "currentUser signed_in_world = Some alice \<and> isValid alice_session \<and>
   getCurrentSession signed_in_world =
     Some \<lparr>idToken = ''id.jwt'', accessToken = ''access.jwt'', refreshToken = ''refresh''\<rparr> \<and>
   currentUser signed_out_world = None \<and> getCurrentSession signed_out_world = None"
  using getCurrentSession_absent_or_valid [of signed_in_world]
    getCurrentSession_absent_or_valid [of signed_out_world]
  by (simp add: signed_in_world_def signed_out_world_def alice_def alice_session_def
      getCurrentSession_def)

text \<open>
  C5.  \<open>signOut\<close> never fails.  With nothing cached it leaves the world as it is.
  A second call changes nothing further, and after the first call as well as after
  the second one \<open>getCurrentSession\<close> returns absent.
\<close>

theorem signOut_idempotent:
  "fst (signOut w) = Inr () \<and>
   (currentUser w = None \<longrightarrow> signOut w = (Inr (), w)) \<and>
   getCurrentSession (snd (signOut w)) = None \<and>
   signOut (snd (signOut w)) = (Inr (), snd (signOut w)) \<and>
   getCurrentSession (snd (signOut (snd (signOut w)))) = None"
  by (simp add: signOut_def CognitoUser_signOut_def getCurrentSession_def
      split: option.splits)

theorem signOut_idempotent_witness:
  "currentUser signed_out_world = None \<and>
   signOut signed_out_world = (Inr (), signed_out_world) \<and>
   getCurrentSession signed_in_world \<noteq> None \<and>
   snd (signOut signed_in_world) = signed_out_world \<and>
   signOut (snd (signOut signed_in_world)) = (Inr (), signed_out_world) \<and>
   getCurrentSession (snd (signOut (snd (signOut signed_in_world)))) = None"
  using signOut_idempotent [of signed_out_world] signOut_idempotent [of signed_in_world]
  by (simp add: signed_in_world_def signed_out_world_def alice_def alice_session_def
      signOut_def CognitoUser_signOut_def getCurrentSession_def)

section \<open>Properties of the API Client\<close>

lemma requireAuth_default:
  "requireAuth options \<noteq> Some False \<Longrightarrow>
   (case requireAuth options of None \<Rightarrow> True | Some b \<Rightarrow> b)"
  by (cases "requireAuth options") auto

text \<open>What \<open>request\<close> settles with once the call is made and the network answers.\<close>

lemma request_outcome:
  assumes auth: "requireAuth options = Some False \<or> getIdToken w \<noteq> None"
      and srv: "\<And>call. server w (net_log w @ [call]) = Inr response"
  shows "fst (request endpoint options w) =
     (if \<not> ok response then
        (case json_result response of
           Inl e \<Rightarrow> Inl (Error ''Request failed'')
         | Inr v \<Rightarrow>
            (case get_property v ''detail'' of
               Inl e \<Rightarrow> Inl e
             | Inr detail \<Rightarrow> Inl (new_Error (or_else detail (JStr ''Request failed'')))))
      else json_result response)"
proof (cases "requireAuth options = Some False")
  case True
  then show ?thesis
    by (simp add: request_def fetch_def Let_def srv new_Error_def or_else_def
        split: sum.splits)
next
  case False
  with auth obtain token where tok: "getIdToken w = Some token" by auto
  from False have "(case requireAuth options of None \<Rightarrow> True | Some b \<Rightarrow> b)"
    by (rule requireAuth_default)
  then show ?thesis
    by (simp add: request_def fetch_def Let_def srv tok new_Error_def or_else_def
        split: sum.splits)
qed

text \<open>The call that an authenticated \<open>request\<close> issues, and the one an open \<open>request\<close> issues.\<close>

lemma request_log:
  assumes "requireAuth options \<noteq> Some False" and tok: "getIdToken w = Some token"
  shows "net_log (snd (request endpoint options w)) =
     net_log w @
       [\<lparr>url = API_BASE_URL w @ endpoint,
         init_method = (case method_field options of None \<Rightarrow> ''GET'' | Some m \<Rightarrow> m),
         init_headers = [(''Content-Type'', ''application/json''),
                         (''Authorization'', ''Bearer '' @ token)],
         init_body = (case body options of
                        None \<Rightarrow> None
                      | Some b \<Rightarrow> if truthy (Some b) then Some (JSON_stringify b) else None)\<rparr>]"
proof -
  from assms(1) have "(case requireAuth options of None \<Rightarrow> True | Some b \<Rightarrow> b)"
    by (rule requireAuth_default)
  then show ?thesis
    by (simp add: request_def fetch_def Let_def tok split: sum.splits option.splits)
qed

lemma request_log_open:
  assumes "requireAuth options = Some False"
  shows "net_log (snd (request endpoint options w)) =
     net_log w @
       [\<lparr>url = API_BASE_URL w @ endpoint,
         init_method = (case method_field options of None \<Rightarrow> ''GET'' | Some m \<Rightarrow> m),
         init_headers = [(''Content-Type'', ''application/json'')],
         init_body = (case body options of
                        None \<Rightarrow> None
                      | Some b \<Rightarrow> if truthy (Some b) then Some (JSON_stringify b) else None)\<rparr>]"
  using assms
  by (simp add: request_def fetch_def Let_def split: sum.splits option.splits)

text \<open>
  C1.  A call through \<open>request\<close> that requires authentication (\<open>requireAuth\<close> true or
  left out) while \<open>getIdToken\<close> yields nothing is rejected with the error
  \<open>Not authenticated\<close>; the world is left as it was, so no call reaches the network.
\<close>

theorem request_not_authenticated:
  "requireAuth options \<noteq> Some False \<Longrightarrow> getIdToken w = None \<Longrightarrow>
   request endpoint options w = (Inl (Error ''Not authenticated''), w) \<and>
   net_log (snd (request endpoint options w)) = net_log w"
  by (cases "requireAuth options") (simp_all add: request_def Let_def)

theorem request_not_authenticated_witness:
  "requireAuth \<lparr>method_field = Some ''POST'', body = Some (JObj [(''message'', JStr ''hi'')]),
                requireAuth = None\<rparr> \<noteq> Some False \<and>
   getIdToken signed_out_world = None \<and>
   createMessage ''hi'' signed_out_world = (Inl (Error ''Not authenticated''), signed_out_world) \<and>
   net_log (snd (createMessage ''hi'' signed_out_world)) = []"
  using request_not_authenticated [of
      "\<lparr>method_field = Some ''POST'', body = Some (JObj [(''message'', JStr ''hi'')]),
        requireAuth = None\<rparr>" signed_out_world "''/messages''"]
  by (simp add: createMessage_def getIdToken_def getCurrentSession_def signed_out_world_def)

lemma signed_in_token: "getIdToken signed_in_world = Some ''id.jwt''"
  by (simp add: getIdToken_def getCurrentSession_def signed_in_world_def signed_out_world_def
      alice_def alice_session_def)

text \<open>
  C3, as the code has it.  Let the call be made and the network answer with
  \<open>response\<close>.  On a status outside 200..299 \<open>request\<close> always rejects.  The error's
  message is the server's \<open>detail\<close> when the body parses to a value whose \<open>detail\<close> is
  a non-empty string.  It is \<open>Request failed\<close> when the body does not parse, and when
  it parses to a value other than \<open>null\<close> whose \<open>detail\<close> is missing or falsy (the
  empty string, \<open>null\<close>, \<open>false\<close>, \<open>0\<close>); the message is non-empty in each of these
  cases.  On a status in 200..299 whose body parses, \<open>request\<close> returns the parsed
  body.
\<close>

theorem request_failure_message:
  assumes "requireAuth options = Some False \<or> getIdToken w \<noteq> None"
      and "\<forall>call. server w (net_log w @ [call]) = Inr response"
  shows
  "(\<not> ok response \<longrightarrow>
      (\<exists>e. fst (request endpoint options w) = Inl e) \<and>
      (\<forall>e. json_result response = Inl e \<longrightarrow>
           fst (request endpoint options w) = Inl (Error ''Request failed'')) \<and>
      (\<forall>v d. json_result response = Inr v \<and> get_property v ''detail'' = Inr (Some (JStr d)) \<and>
           d \<noteq> [] \<longrightarrow>
           fst (request endpoint options w) = Inl (Error d)) \<and>
      (\<forall>v detail. json_result response = Inr v \<and> get_property v ''detail'' = Inr detail \<and>
           \<not> truthy detail \<longrightarrow>
           fst (request endpoint options w) = Inl (Error ''Request failed''))) \<and>
   (\<forall>v. ok response \<and> json_result response = Inr v \<longrightarrow>
        fst (request endpoint options w) = Inr v)"
proof -
  note out = request_outcome [OF assms(1), of response endpoint, OF assms(2)[rule_format]]
  show ?thesis
    by (auto simp: out new_Error_def or_else_def split: sum.splits option.splits)
qed

theorem request_failure_message_witness:
  "getIdToken (signed_in_world\<lparr>server := not_found_server\<rparr>) = Some ''id.jwt'' \<and>
   not_found_server [] =
     Inr \<lparr>status = 404, json_result = Inr (JObj [(''detail'', JStr ''Message not found'')])\<rparr> \<and>
   fst (request ''/messages/5'' \<lparr>method_field = Some ''DELETE'', body = None, requireAuth = None\<rparr>
          (signed_in_world\<lparr>server := not_found_server\<rparr>)) = Inl (Error ''Message not found'')"
  using request_failure_message [of
      "\<lparr>method_field = Some ''DELETE'', body = None, requireAuth = None\<rparr>"
      "signed_in_world\<lparr>server := not_found_server\<rparr>"
      "\<lparr>status = 404, json_result = Inr (JObj [(''detail'', JStr ''Message not found'')])\<rparr>"
      "''/messages/5''"]
  by (simp add: getIdToken_def getCurrentSession_def signed_in_world_def signed_out_world_def
      alice_def alice_session_def not_found_server_def ok_def)

text \<open>
  The claim as stated says that \<open>request\<close> never throws on a 2xx response.  A 204
  answer has no body, \<open>response.json()\<close> rejects, and so does \<open>request\<close>.
\<close>

theorem request_rejects_on_2xx_counterexample:
  "server (signed_in_world\<lparr>server := no_content_server\<rparr>) [] =
     Inr \<lparr>status = 204, json_result = Inl (SyntaxError ''Unexpected end of JSON input'')\<rparr> \<and>
   ok \<lparr>status = 204, json_result = Inl (SyntaxError ''Unexpected end of JSON input'')\<rparr> \<and>
   fst (request ''/messages/5'' \<lparr>method_field = Some ''DELETE'', body = None, requireAuth = None\<rparr>
          (signed_in_world\<lparr>server := no_content_server\<rparr>)) =
     Inl (SyntaxError ''Unexpected end of JSON input'')"
  by (simp add: request_def fetch_def Let_def getIdToken_def getCurrentSession_def
      signed_in_world_def signed_out_world_def alice_def alice_session_def
      no_content_server_def ok_def)

text \<open>
  Two answers the statement above leaves aside.  An error body that parses to
  \<open>null\<close> makes the read of \<open>detail\<close> throw, and a \<open>detail\<close> that is an empty array is
  truthy and becomes the empty message.
\<close>

lemma request_null_error_body:
  "fst (healthCheck (signed_out_world\<lparr>server := null_body_server\<rparr>)) =
     Inl (TypeError (''Cannot read properties of null (reading '' @ [CHR 0x27] @ ''detail'' @
                     [CHR 0x27] @ '')''))"
  by (simp add: healthCheck_def request_def fetch_def Let_def null_body_server_def ok_def)

lemma request_empty_array_detail:
  "fst (healthCheck (signed_out_world\<lparr>server := empty_detail_server\<rparr>)) = Inl (Error [])"
  by (simp add: healthCheck_def request_def fetch_def Let_def empty_detail_server_def ok_def
      new_Error_def or_else_def)



lemmas api_defs = getMe_def getMessages_def createMessage_def deleteMessage_def healthCheck_def

text \<open>
  C2.  The operations of the module are \<open>getMe\<close>, \<open>getMessages\<close>, \<open>createMessage\<close>,
  \<open>deleteMessage\<close> and \<open>healthCheck\<close>.  Each of the first four requires
  authentication: without an identity token it is rejected with \<open>Not authenticated\<close>
  and leaves the world untouched, and with a token its call carries the bearer
  header.  \<open>healthCheck\<close> alone does not: with or without a session it issues
  \<open>GET /\<close> with no \<open>Authorization\<close> header.
\<close>

theorem healthCheck_only_open_operation:
  "(op \<noteq> HealthCheck \<and> getIdToken w = None \<longrightarrow>
      api_call op w = (Inl (Error ''Not authenticated''), w)) \<and>
   (\<forall>token. op \<noteq> HealthCheck \<and> getIdToken w = Some token \<longrightarrow>
      (\<exists>call. net_log (snd (api_call op w)) = net_log w @ [call] \<and>
         map_of (init_headers call) ''Authorization'' = Some (''Bearer '' @ token))) \<and>
   (\<exists>call. net_log (snd (api_call HealthCheck w)) = net_log w @ [call] \<and>
      url call = API_BASE_URL w @ ''/'' \<and> init_method call = ''GET'' \<and>
      map_of (init_headers call) ''Authorization'' = None) \<and>
   (op \<in> {GetMe, GetMessages, HealthCheck} \<union> range CreateMessage \<union> range DeleteMessage)"
proof (intro conjI)
  show "op \<noteq> HealthCheck \<and> getIdToken w = None \<longrightarrow>
      api_call op w = (Inl (Error ''Not authenticated''), w)"
    by (cases op) (simp_all add: api_defs request_def Let_def)
  show "\<forall>token. op \<noteq> HealthCheck \<and> getIdToken w = Some token \<longrightarrow>
      (\<exists>call. net_log (snd (api_call op w)) = net_log w @ [call] \<and>
         map_of (init_headers call) ''Authorization'' = Some (''Bearer '' @ token))"
    by (cases op) (simp_all add: api_defs request_log)
  show "\<exists>call. net_log (snd (api_call HealthCheck w)) = net_log w @ [call] \<and>
      url call = API_BASE_URL w @ ''/'' \<and> init_method call = ''GET'' \<and>
      map_of (init_headers call) ''Authorization'' = None"
    by (simp add: api_defs request_log_open)
  show "op \<in> {GetMe, GetMessages, HealthCheck} \<union> range CreateMessage \<union> range DeleteMessage"
    by (cases op) simp_all
qed

theorem healthCheck_only_open_operation_witness:
  "getIdToken signed_out_world = None \<and>
   api_call (DeleteMessage 5) signed_out_world =
     (Inl (Error ''Not authenticated''), signed_out_world) \<and>
   api_call GetMe signed_out_world = (Inl (Error ''Not authenticated''), signed_out_world) \<and>
   net_log (snd (api_call HealthCheck signed_out_world)) =
     [\<lparr>url = ''http://localhost:8000/'', init_method = ''GET'',
       init_headers = [(''Content-Type'', ''application/json'')], init_body = None\<rparr>] \<and>
   net_log (snd (api_call (DeleteMessage 5) signed_in_world)) =
     [\<lparr>url = ''http://localhost:8000/messages/5'', init_method = ''DELETE'',
       init_headers = [(''Content-Type'', ''application/json''),
                       (''Authorization'', ''Bearer id.jwt'')], init_body = None\<rparr>]"
  using healthCheck_only_open_operation [of "DeleteMessage 5" signed_out_world]
    healthCheck_only_open_operation [of GetMe signed_out_world]
  by (simp add: api_defs request_log_open request_log [OF _ signed_in_token]
        decimal_def)
     (simp add: getIdToken_def getCurrentSession_def API_BASE_URL_def signed_in_world_def
        signed_out_world_def)

section \<open>Properties of the home page\<close>

lemma trim_blank: "trim ''  '' = []"
  by (simp add: trim_def is_white_space_def)

text \<open>
  C10.  A submission whose text is empty after trimming returns at once: the state
  (the list, the loading flag, the error and everything else) and the world are
  what they were, whatever \<open>createMessage\<close> and \<open>getMessages\<close> would do, so neither
  is called.
\<close>

theorem handleSubmit_blank_text:
  "trim (text_field st) = [] \<Longrightarrow>
   handleSubmit createMessage_api getMessages_api st w = (st, w)"
  by (simp add: handleSubmit_def)

theorem handleSubmit_blank_text_witness:
  "trim (text_field (home_page\<lparr>text_field := ''  ''\<rparr>)) = [] \<and>
   handleSubmit accepting_createMessage listing_getMessages
     (home_page\<lparr>text_field := ''  ''\<rparr>) [] = (home_page\<lparr>text_field := ''  ''\<rparr>, []) \<and>
   snd (handleSubmit accepting_createMessage listing_getMessages home_page []) =
     [''POST /messages'', ''GET /messages'']"
  using handleSubmit_blank_text [of "home_page\<lparr>text_field := ''  ''\<rparr>"
      accepting_createMessage listing_getMessages "[]"]
  by (simp add: trim_blank)
     (simp add: handleSubmit_def fetchMessages_def home_page_def trim_def is_white_space_def
        accepting_createMessage_def listing_getMessages_def)

text \<open>
  C7.  Once \<open>createMessage\<close> has succeeded, \<open>handleSubmit\<close> clears the input text and
  calls \<open>getMessages\<close>: the world is the one \<open>getMessages\<close> leaves when run after the
  create.  When \<open>getMessages\<close> returns, the list shown is the list it returned (the
  empty list if the answer has none); the created message is never added locally,
  and if the re-fetch fails the list stays as it was and the failure is shown.
\<close>

theorem handleSubmit_refetches:
  assumes "trim (text_field st) \<noteq> []"
      and "createMessage_api (text_field st) w = (Inr created, w1)"
  shows
  "snd (handleSubmit createMessage_api getMessages_api st w) = snd (getMessages_api w1) \<and>
   text_field (fst (handleSubmit createMessage_api getMessages_api st w)) = [] \<and>
   loading (fst (handleSubmit createMessage_api getMessages_api st w)) = False \<and>
   (\<forall>data. fst (getMessages_api w1) = Inr data \<longrightarrow>
      messages (fst (handleSubmit createMessage_api getMessages_api st w)) =
        (case messages_field data of None \<Rightarrow> [] | Some ms \<Rightarrow> ms) \<and>
      error (fst (handleSubmit createMessage_api getMessages_api st w)) = None) \<and>
   (\<forall>err. fst (getMessages_api w1) = Inl err \<longrightarrow>
      messages (fst (handleSubmit createMessage_api getMessages_api st w)) = messages st \<and>
      error (fst (handleSubmit createMessage_api getMessages_api st w)) =
        Some (catch_message err ''Failed to fetch messages''))"
  using assms
  by (cases "getMessages_api w1"; cases "fst (getMessages_api w1)")
     (simp_all add: handleSubmit_def fetchMessages_def Let_def)

theorem handleSubmit_refetches_witness:
  "trim (text_field home_page) \<noteq> [] \<and>
   accepting_createMessage (text_field home_page) [] = (Inr note3, [''POST /messages'']) \<and>
   snd (handleSubmit accepting_createMessage listing_getMessages home_page []) =
     [''POST /messages'', ''GET /messages''] \<and>
   messages (fst (handleSubmit accepting_createMessage listing_getMessages home_page [])) =
     [note3, note2, note1] \<and>
   text_field (fst (handleSubmit accepting_createMessage listing_getMessages home_page [])) = []"
  using handleSubmit_refetches [of home_page accepting_createMessage "[]" note3
      "[''POST /messages'']" listing_getMessages]
  by (simp add: handleSubmit_def fetchMessages_def home_page_def trim_def is_white_space_def
        accepting_createMessage_def listing_getMessages_def note3_def)

text \<open>
  C6, as the code has it.  \<open>handleDelete\<close> awaits \<open>deleteMessage\<close> first.  When the
  call succeeds, every message with that id is removed from the local list and
  nothing else happens: no re-fetch, the world is the one the delete call left.
  When the call fails, the error is shown and the list is what it was: nothing has
  been removed.
\<close>

theorem handleDelete_removes_after_success:
  "(\<forall>done w'. deleteMessage_api mid w = (Inr done, w') \<longrightarrow>
      handleDelete deleteMessage_api mid st w =
        (st\<lparr>messages := filter (\<lambda>msg. id_field msg \<noteq> mid) (messages st)\<rparr>, w') \<and>
      (\<forall>msg \<in> set (messages (fst (handleDelete deleteMessage_api mid st w))).
         id_field msg \<noteq> mid)) \<and>
   (\<forall>err w'. deleteMessage_api mid w = (Inl err, w') \<longrightarrow>
      handleDelete deleteMessage_api mid st w =
        (st\<lparr>error := Some (catch_message err ''Failed to delete message'')\<rparr>, w') \<and>
      messages (fst (handleDelete deleteMessage_api mid st w)) = messages st)"
  by (simp add: handleDelete_def)

theorem handleDelete_removes_after_success_witness:
  "accepting_deleteMessage 1 [] = (Inr (), [''DELETE /messages/1'']) \<and>
   messages (fst (handleDelete accepting_deleteMessage 1 home_page [])) = [note2] \<and>
   error (fst (handleDelete accepting_deleteMessage 1 home_page [])) = None \<and>
   snd (handleDelete accepting_deleteMessage 1 home_page []) = [''DELETE /messages/1'']"
  using handleDelete_removes_after_success [of accepting_deleteMessage 1 "[]" home_page]
  by (simp add: handleDelete_def accepting_deleteMessage_def decimal_def
        home_page_def note1_def note2_def)

text \<open>
  The claim as stated says that the item is removed at once and stays removed when
  the delete call fails.  Here the call fails and the note with id 1 is still shown.
\<close>

theorem handleDelete_failure_keeps_item_counterexample:
  "fst (rejecting_deleteMessage 1 []) = Inl (Error ''Message not found'') \<and>
   note1 \<in> set (messages home_page) \<and> id_field note1 = 1 \<and>
   messages (fst (handleDelete rejecting_deleteMessage 1 home_page [])) = [note2, note1] \<and>
   error (fst (handleDelete rejecting_deleteMessage 1 home_page [])) = Some ''Message not found''"
  by (simp add: handleDelete_def rejecting_deleteMessage_def catch_message_def
        home_page_def note1_def)

text \<open>
  C9.  On release, \<open>deleteMessage\<close> is called for the id exactly when the stored
  offset (0 if there is none) is below \<open>-100\<close>: then the world is the one that call
  leaves, and the list and the error are those of \<open>handleDelete\<close>; otherwise the
  world, the list and the error are untouched.  In both cases the offset of the id
  is 0 and no message is being swiped afterwards.
\<close>

theorem handleSwipeEnd_threshold:
  "((case swipeOffset st mid of None \<Rightarrow> 0 | Some v \<Rightarrow> v) < - 100 \<longrightarrow>
      snd (handleSwipeEnd deleteMessage_api mid st w) = snd (deleteMessage_api mid w) \<and>
      messages (fst (handleSwipeEnd deleteMessage_api mid st w)) =
        messages (fst (handleDelete deleteMessage_api mid st w)) \<and>
      error (fst (handleSwipeEnd deleteMessage_api mid st w)) =
        error (fst (handleDelete deleteMessage_api mid st w))) \<and>
   (\<not> (case swipeOffset st mid of None \<Rightarrow> 0 | Some v \<Rightarrow> v) < - 100 \<longrightarrow>
      snd (handleSwipeEnd deleteMessage_api mid st w) = w \<and>
      messages (fst (handleSwipeEnd deleteMessage_api mid st w)) = messages st \<and>
      error (fst (handleSwipeEnd deleteMessage_api mid st w)) = error st) \<and>
   swipeOffset (fst (handleSwipeEnd deleteMessage_api mid st w)) mid = Some 0 \<and>
   swiping (fst (handleSwipeEnd deleteMessage_api mid st w)) = None"
  by (cases "deleteMessage_api mid w"; cases "fst (deleteMessage_api mid w)")
     (simp_all add: handleSwipeEnd_def handleDelete_def Let_def)

theorem handleSwipeEnd_threshold_witness:
  "snd (handleSwipeEnd accepting_deleteMessage 1
          (home_page\<lparr>swipeOffset := [1 \<mapsto> - 100], swiping := Some 1\<rparr>) []) = [] \<and>
   messages (fst (handleSwipeEnd accepting_deleteMessage 1
          (home_page\<lparr>swipeOffset := [1 \<mapsto> - 100], swiping := Some 1\<rparr>) [])) = [note2, note1] \<and>
   snd (handleSwipeEnd accepting_deleteMessage 1
          (home_page\<lparr>swipeOffset := [1 \<mapsto> - 100.5], swiping := Some 1\<rparr>) []) =
     [''DELETE /messages/1''] \<and>
   messages (fst (handleSwipeEnd accepting_deleteMessage 1
          (home_page\<lparr>swipeOffset := [1 \<mapsto> - 100.5], swiping := Some 1\<rparr>) [])) = [note2] \<and>
   swipeOffset (fst (handleSwipeEnd accepting_deleteMessage 1
          (home_page\<lparr>swipeOffset := [1 \<mapsto> - 100.5], swiping := Some 1\<rparr>) [])) 1 = Some 0 \<and>
   swiping (fst (handleSwipeEnd accepting_deleteMessage 1
          (home_page\<lparr>swipeOffset := [1 \<mapsto> - 100.5], swiping := Some 1\<rparr>) [])) = None"
  using handleSwipeEnd_threshold [of
      "home_page\<lparr>swipeOffset := [1 \<mapsto> - 100], swiping := Some 1\<rparr>" 1
      accepting_deleteMessage "[]"]
    handleSwipeEnd_threshold [of
      "home_page\<lparr>swipeOffset := [1 \<mapsto> - 100.5], swiping := Some 1\<rparr>" 1
      accepting_deleteMessage "[]"]
  by (simp add: handleSwipeEnd_def handleDelete_def accepting_deleteMessage_def
        decimal_def home_page_def note1_def note2_def)

text \<open>
  What \<open>handleSwipeStart\<close> and \<open>handleSwipeMove\<close> store for the message being swiped:
  the rounded difference, never more than 0.
\<close>

lemma swipe_gesture:
  "swipeOffset (handleSwipeMove to_double mid x (handleSwipeStart mid x0 st)) mid =
     Some (min 0 (to_double (x - x0)))"
  by (simp add: handleSwipeMove_def handleSwipeStart_def Let_def)

end
